theory Spec2Isabelle
  imports Main
begin

section \<open>The configuration module \<^verbatim>\<open>src/config/odoo.js\<close>\<close>

text \<open>
  The module reads \<^verbatim>\<open>process.env\<close> and defines seven constants. The environment is a
  dictionary from variable names to strings; a variable that is not set reads as
  \<^verbatim>\<open>undefined\<close>, which is \<open>None\<close> here. JavaScript strings are modelled as \<open>string\<close>,
  one \<open>char\<close> per code unit (code units up to \<open>0xFF\<close>).
\<close>

type_synonym env = "string \<rightharpoonup> string"

text \<open>
  \<^verbatim>\<open>process.env.X || d\<close>: the left operand is falsy when it is \<^verbatim>\<open>undefined\<close> or the
  empty string, and then the default is taken.
\<close>

definition or_default :: "string option \<Rightarrow> string \<Rightarrow> string" where
  "or_default v d = (case v of None \<Rightarrow> d | Some s \<Rightarrow> if s = [] then d else s)"

text \<open>
  \<^verbatim>\<open>String.prototype.split(sep)\<close> for a one-character separator: the pieces between
  the separators, in order, empty pieces included; a string without separator is one
  piece.
\<close>

fun js_split :: "char \<Rightarrow> string \<Rightarrow> string list" where
  "js_split sep [] = [[]]"
| "js_split sep (c # cs) =
     (if c = sep then [] # js_split sep cs
      else (case js_split sep cs of
              [] \<Rightarrow> [[c]]
            | w # ws \<Rightarrow> (c # w) # ws))"

text \<open>
  \<^verbatim>\<open>String.prototype.trim()\<close> removes white space and line terminators from both ends.
  Among the code units up to \<open>0xFF\<close> these are TAB, LF, VT, FF, CR, SPACE and NBSP.
\<close>

definition is_whitespace :: "char \<Rightarrow> bool" where
  "is_whitespace c =
     (c \<in> set [CHR 0x09, CHR 0x0A, CHR 0x0B, CHR 0x0C, CHR 0x0D, CHR '' '', CHR 0xA0])"

definition js_trim :: "string \<Rightarrow> string" where
  "js_trim s = rev (dropWhile is_whitespace (rev (dropWhile is_whitespace s)))"

text \<open>The module's exported constants.\<close>

record odoo_config =
  ODOO_URL :: string
  ODOO_DB :: string
  DEFAULT_SENDER_EMAIL :: string
  DEFAULT_SENDER_PASSWORD :: string
  DEFAULT_SMTP_SERVER :: string
  DEFAULT_SMTP_PORT :: string
  ALLOWED_USER_EMAILS :: "string list"

text \<open>
  Evaluating the module body. The allow-list is a conditional expression on the
  truthiness of \<^verbatim>\<open>process.env.REACT_APP_ALLOWED_USER_EMAILS\<close>.
\<close>

definition load_config :: "env \<Rightarrow> odoo_config" where
  "load_config env =
     \<lparr> ODOO_URL = or_default (env ''REACT_APP_ODOO_URL'') ''https://prezlab.odoo.com/'',
       ODOO_DB = or_default (env ''REACT_APP_ODOO_DB'') ''odoo-ps-psae-prezlab-main-10779811'',
       DEFAULT_SENDER_EMAIL = or_default (env ''REACT_APP_DEFAULT_SENDER_EMAIL'') '''',
       DEFAULT_SENDER_PASSWORD = or_default (env ''REACT_APP_DEFAULT_SENDER_PASSWORD'') '''',
       DEFAULT_SMTP_SERVER = or_default (env ''REACT_APP_DEFAULT_SMTP_SERVER'') ''smtp.gmail.com'',
       DEFAULT_SMTP_PORT = or_default (env ''REACT_APP_DEFAULT_SMTP_PORT'') ''587'',
       ALLOWED_USER_EMAILS =
         (case env ''REACT_APP_ALLOWED_USER_EMAILS'' of
            None \<Rightarrow> [''omar.elhasan@prezlab.com'', ''sanad.zaqtan@prezlab.com'']
          | Some s \<Rightarrow>
              if s = [] then [''omar.elhasan@prezlab.com'', ''sanad.zaqtan@prezlab.com'']
              else map js_trim (js_split (CHR '','') s)) \<rparr>"

text \<open>
  \<^verbatim>\<open>Array.prototype.join(sep)\<close>, the inverse of splitting; it is used below to say what
  the pieces of a split are.
\<close>

fun js_join :: "char \<Rightarrow> string list \<Rightarrow> string" where
  "js_join sep [] = []"
| "js_join sep [w] = w"
| "js_join sep (w # v # ws) = w @ sep # js_join sep (v # ws)"

text \<open>
  What the module does to the outside world is kept in a log of effects. The program's
  sources perform two kinds of call on their collaborators: \<^verbatim>\<open>e.preventDefault()\<close> and
  \<^verbatim>\<open>connectToOdoo(form)\<close>, both in \<^verbatim>\<open>handleSubmit\<close>. An object with string-valued
  properties, such as the form, is a dictionary from property names to strings.
\<close>

type_synonym js_object = "string \<rightharpoonup> string"

datatype effect = PreventDefault | ConnectToOdoo js_object

text \<open>
  Loading the module: its body is the seven constant definitions and nothing else, so
  the log of effects it leaves is empty.
\<close>

definition load_module :: "env \<Rightarrow> odoo_config \<times> effect list" where
  "load_module env = (load_config env, [])"


section \<open>The component \<^verbatim>\<open>LoginPage\<close>\<close>

text \<open>
  The component's state is the \<^verbatim>\<open>form\<close> object and the \<^verbatim>\<open>showPassword\<close> flag. The
  model carries along the constants of the imported module and the log of effects.
  The values \<^verbatim>\<open>isConnected\<close>, \<^verbatim>\<open>isLoading\<close> and \<^verbatim>\<open>error\<close> come from the
  authentication context, which is not part of these sources; they steer navigation and
  rendering only and never reach the form, so they are left out.
\<close>

record login_page =
  module :: odoo_config
  form :: js_object
  showPassword :: bool
  effects :: "effect list"

text \<open>The first render: the module is loaded and both \<^verbatim>\<open>useState\<close> cells are initialised.\<close>

definition mount :: "env \<Rightarrow> login_page" where
  "mount env =
     (case load_module env of
        (cfg, log) \<Rightarrow>
          \<lparr> module = cfg,
            form = [''url'' \<mapsto> ODOO_URL cfg, ''database'' \<mapsto> ODOO_DB cfg,
                    ''username'' \<mapsto> '''', ''password'' \<mapsto> ''''],
            showPassword = False,
            effects = log \<rparr>)"

text \<open>
  \<^verbatim>\<open>handleChange\<close> takes \<^verbatim>\<open>name\<close> and \<^verbatim>\<open>value\<close> from the event's target and replaces the
  form by \<^verbatim>\<open>{ ...prev, [name]: value }\<close>.
\<close>

definition handleChange :: "string \<Rightarrow> string \<Rightarrow> login_page \<Rightarrow> login_page" where
  "handleChange name val st = st\<lparr>form := (form st)(name \<mapsto> val)\<rparr>"

text \<open>\<^verbatim>\<open>handleSubmit\<close>: \<^verbatim>\<open>e.preventDefault(); await connectToOdoo(form);\<close>\<close>

definition handleSubmit :: "login_page \<Rightarrow> login_page" where
  "handleSubmit st = st\<lparr>effects := effects st @ [PreventDefault, ConnectToOdoo (form st)]\<rparr>"

text \<open>The click handler of the eye button: \<^verbatim>\<open>setShowPassword((s) => !s)\<close>.\<close>

definition toggleShowPassword :: "login_page \<Rightarrow> login_page" where
  "toggleShowPassword st = st\<lparr>showPassword := \<not> showPassword st\<rparr>"

text \<open>
  The rendered form holds two \<^verbatim>\<open>Input\<close> elements, with the \<^verbatim>\<open>name\<close> attributes
  \<^verbatim>\<open>username\<close> and \<^verbatim>\<open>password\<close>, both wired to \<^verbatim>\<open>handleChange\<close>; the eye button; and
  the form's \<^verbatim>\<open>onSubmit\<close>. These are all the ways a user can act on the page.
\<close>

datatype input = UsernameInput | PasswordInput

fun input_name :: "input \<Rightarrow> string" where
  "input_name UsernameInput = ''username''"
| "input_name PasswordInput = ''password''"

datatype event = Change input string | ClickShowPassword | SubmitForm

fun dispatch :: "login_page \<Rightarrow> event \<Rightarrow> login_page" where
  "dispatch st (Change i val) = handleChange (input_name i) val st"
| "dispatch st ClickShowPassword = toggleShowPassword st"
| "dispatch st SubmitForm = handleSubmit st"

text \<open>The state of the page after a sequence of user events.\<close>

definition run :: "env \<Rightarrow> event list \<Rightarrow> login_page" where
  "run env evs = foldl dispatch (mount env) evs"

text \<open>
  \<^verbatim>\<open>handleChange\<close> itself does not look at which input an event comes from: it reads
  \<^verbatim>\<open>name\<close> and \<^verbatim>\<open>value\<close> from \<^verbatim>\<open>e.target\<close> and writes the property of that name. The
  form, with its \<^verbatim>\<open>url\<close> and \<^verbatim>\<open>database\<close>, is state held by the client, and a client
  is free in the events it delivers to the handlers. A client event is a change event
  whose target carries any name and value, a click on the eye button, or a submit.
\<close>

datatype client_event = ChangeEvent string string | ClickEvent | SubmitEvent

fun client_dispatch :: "login_page \<Rightarrow> client_event \<Rightarrow> login_page" where
  "client_dispatch st (ChangeEvent name val) = handleChange name val st"
| "client_dispatch st ClickEvent = toggleShowPassword st"
| "client_dispatch st SubmitEvent = handleSubmit st"

definition client_run :: "env \<Rightarrow> client_event list \<Rightarrow> login_page" where
  "client_run env evs = foldl client_dispatch (mount env) evs"

text \<open>An event of the rendered page, as the client event that the handlers receive.\<close>

fun as_client_event :: "event \<Rightarrow> client_event" where
  "as_client_event (Change i val) = ChangeEvent (input_name i) val"
| "as_client_event ClickShowPassword = ClickEvent"
| "as_client_event SubmitForm = SubmitEvent"

text \<open>
  A client can submit endpoint \<open>u\<close> and database \<open>d\<close> when some sequence of client events
  leads to a call of \<^verbatim>\<open>connectToOdoo\<close> that carries them.
\<close>

definition client_can_submit :: "env \<Rightarrow> string \<Rightarrow> string \<Rightarrow> bool" where
  "client_can_submit env u d =
     (\<exists>evs f. ConnectToOdoo f \<in> set (effects (client_run env evs)) \<and>
              f ''url'' = Some u \<and> f ''database'' = Some d)"

text \<open>
  A call carries its endpoint and database when the object passed has both properties.
  This holds of every call the handlers make, whatever the client's events are.
\<close>

fun carries_endpoint :: "effect \<Rightarrow> bool" where
  "carries_endpoint PreventDefault = True"
| "carries_endpoint (ConnectToOdoo f) = (f ''url'' \<noteq> None \<and> f ''database'' \<noteq> None)"

definition request_inv :: "login_page \<Rightarrow> bool" where
  "request_inv st =
     (form st ''url'' \<noteq> None \<and> form st ''database'' \<noteq> None \<and>
      list_all carries_endpoint (effects st))"

text \<open>
  The invariant of the page, used in the proofs below: the module constants are those
  loaded at the start, the form has its four properties, endpoint and database are the
  configured ones, in the form and in every call made so far.
\<close>

definition configured :: "odoo_config \<Rightarrow> js_object \<Rightarrow> bool" where
  "configured cfg f =
     (f ''url'' = Some (ODOO_URL cfg) \<and> f ''database'' = Some (ODOO_DB cfg) \<and>
      dom f = {''url'', ''database'', ''username'', ''password''})"

fun effect_configured :: "odoo_config \<Rightarrow> effect \<Rightarrow> bool" where
  "effect_configured cfg PreventDefault = True"
| "effect_configured cfg (ConnectToOdoo f) = configured cfg f"

definition page_inv :: "odoo_config \<Rightarrow> login_page \<Rightarrow> bool" where
  "page_inv cfg st =
     (module st = cfg \<and> configured cfg (form st) \<and> list_all (effect_configured cfg) (effects st))"

section \<open>The credential validator and the login operation\<close>

text \<open>
  The repository's code that checks a username against \<^verbatim>\<open>ALLOWED_USER_EMAILS\<close> and
  that logs in (\<^verbatim>\<open>connectToOdoo\<close> in the authentication context, and its server side)
  is not in the sources; the page above only calls it. The definitions of this section
  follow the spec instead.
\<close>

text \<open>
  Modelled from the spec: the lower case of the case-insensitive comparison of section
  4.1, which the missing validation code would compute. It is taken on the letters A to
  Z; every other character stays.
\<close>

definition to_lower_char :: "char \<Rightarrow> char" where
  "to_lower_char c =
     (case map_of (zip ''ABCDEFGHIJKLMNOPQRSTUVWXYZ'' ''abcdefghijklmnopqrstuvwxyz'') c of
        None \<Rightarrow> c
      | Some l \<Rightarrow> l)"

text \<open>Modelled from the spec: the lower case of a string, for the same missing code.\<close>

definition to_lower :: "string \<Rightarrow> string" where
  "to_lower s = map to_lower_char s"

text \<open>
  Modelled from the spec: the Credential Validator of section 4.1, whose code is
  missing. The spec's words: \<^verbatim>\<open>validate(username) -> allowed: bool\<close>; the comparison is
  case-insensitive against the allow-list; no side effects; the result is false for
  empty or malformed input. The spec does not say which inputs are malformed, so that
  test is a parameter.
\<close>

definition validate :: "(string \<Rightarrow> bool) \<Rightarrow> string list \<Rightarrow> string \<Rightarrow> bool" where
  "validate malformed allow u =
     (u \<noteq> [] \<and> \<not> malformed u \<and> to_lower u \<in> set (map to_lower allow))"

text \<open>A test for malformed input under which no string is malformed.\<close>

definition nothing_malformed :: "string \<Rightarrow> bool" where
  "nothing_malformed u = False"

text \<open>
  Modelled from the spec: the data of section 3 that the missing login code works on.
  A credential is endpoint, database, username and secret; a session holds the remote
  token, endpoint, database, the authenticated identity, and the times of creation and
  of last use; the errors of authentication are those of section 4.2.
\<close>

record credential =
  endpoint :: string
  database :: string
  username :: string
  secret :: string

datatype auth_error = InvalidCredentials | TransportError | ProtocolError

record erp_session =
  token :: string
  session_endpoint :: string
  session_database :: string
  identity :: string
  created :: nat
  last_used :: nat

datatype login_result = Forbidden | Failed auth_error | LoggedIn nat

text \<open>
  Modelled from the spec: the state of the missing gateway, which is the Session Store
  of section 4.3 (sessions by identifier) and the log of the remote calls issued to the
  ERP endpoint.
\<close>

record gateway =
  sessions :: "nat \<rightharpoonup> erp_session"
  remote_calls :: "credential list"

text \<open>
  Modelled from the spec: the login transition of the Auth Gateway (section 4.4) with the
  ERP Session Client (4.2) and the Session Store (4.3), whose code is missing. Login
  begins only if the validator passes and otherwise reports \<open>Forbidden\<close> at once; then
  the remote handshake is made; on failure the error kind is reported, and on success
  the store creates the session and its identifier is returned. The remote system is a
  parameter that answers a credential with an error or a session token; the random
  session identifier and the time of the call are parameters as well.
\<close>

definition login ::
  "(string \<Rightarrow> bool) \<Rightarrow> string list \<Rightarrow> (credential \<Rightarrow> auth_error + string) \<Rightarrow> nat \<Rightarrow> nat \<Rightarrow>
   gateway \<Rightarrow> credential \<Rightarrow> login_result \<times> gateway" where
  "login malformed allow remote sid now g c =
     (if \<not> validate malformed allow (username c) then (Forbidden, g)
      else
        (case remote c of
           Inl err \<Rightarrow> (Failed err, g\<lparr>remote_calls := remote_calls g @ [c]\<rparr>)
         | Inr tok \<Rightarrow>
             (LoggedIn sid,
              g\<lparr>remote_calls := remote_calls g @ [c],
                sessions := (sessions g)(sid \<mapsto>
                  \<lparr> token = tok, session_endpoint = endpoint c,
                    session_database = database c, identity = username c,
                    created = now, last_used = now \<rparr>)\<rparr>)))"

text \<open>A remote system that accepts every credential, and a gateway that has done nothing yet.\<close>

definition always_accepts :: "credential \<Rightarrow> auth_error + string" where
  "always_accepts c = Inr ''token''"

definition fresh_gateway :: gateway where
  "fresh_gateway = \<lparr> sessions = Map.empty, remote_calls = [] \<rparr>"

section \<open>Facts about splitting and trimming\<close>

lemma js_split_not_Nil: "js_split sep s \<noteq> []"
  by (induction s) (auto split: list.splits)

lemma length_js_split: "length (js_split sep s) = Suc (count_list s sep)"
proof (induction s)
  case Nil
  show ?case by simp
next
  case (Cons c cs)
  obtain w ws where "js_split sep cs = w # ws"
    using js_split_not_Nil [of sep cs] by (cases "js_split sep cs") auto
  with Cons show ?case by auto
qed

lemma js_split_no_sep: "w \<in> set (js_split sep s) \<Longrightarrow> sep \<notin> set w"
proof (induction s arbitrary: w)
  case Nil
  then show ?case by simp
next
  case (Cons c cs)
  obtain v vs where vs: "js_split sep cs = v # vs"
    using js_split_not_Nil [of sep cs] by (cases "js_split sep cs") auto
  show ?case
  proof (cases "c = sep")
    case True
    with Cons show ?thesis by auto
  next
    case False
    with Cons.prems vs have "w = c # v \<or> w \<in> set vs" by auto
    then show ?thesis
    proof
      assume "w = c # v"
      moreover have "sep \<notin> set v" using Cons.IH [of v] vs by simp
      ultimately show ?thesis using False by auto
    next
      assume "w \<in> set vs"
      then show ?thesis using Cons.IH [of w] vs by simp
    qed
  qed
qed

lemma js_join_split: "js_join sep (js_split sep s) = s"
proof (induction s)
  case Nil
  show ?case by simp
next
  case (Cons c cs)
  obtain v vs where vs: "js_split sep cs = v # vs"
    using js_split_not_Nil [of sep cs] by (cases "js_split sep cs") auto
  show ?case
  proof (cases "c = sep")
    case True
    with Cons vs show ?thesis by simp
  next
    case False
    with Cons vs show ?thesis by (cases vs) auto
  qed
qed

lemma js_trim_no_leading: "js_trim s = c # cs \<Longrightarrow> \<not> is_whitespace c"
proof -
  assume a: "js_trim s = c # cs"
  let ?t = "dropWhile is_whitespace s"
  have t: "?t = [] \<or> \<not> is_whitespace (hd ?t)"
    using hd_dropWhile [of is_whitespace s] by blast
  from a have r: "rev (dropWhile is_whitespace (rev ?t)) = c # cs"
    by (simp add: js_trim_def)
  have "takeWhile is_whitespace (rev ?t) @ dropWhile is_whitespace (rev ?t) = rev ?t"
    by simp
  then have "rev (dropWhile is_whitespace (rev ?t)) @ rev (takeWhile is_whitespace (rev ?t)) = ?t"
    by (metis rev_append rev_rev_ident)
  with r have split: "?t = c # (cs @ rev (takeWhile is_whitespace (rev ?t)))"
    by simp
  then have ne: "?t \<noteq> []" and h: "hd ?t = c"
    by (metis list.distinct(1), metis list.sel(1))
  from t ne h show ?thesis by blast
qed

lemma js_trim_no_trailing: "js_trim s \<noteq> [] \<Longrightarrow> \<not> is_whitespace (last (js_trim s))"
proof -
  assume a: "js_trim s \<noteq> []"
  let ?r = "dropWhile is_whitespace (rev (dropWhile is_whitespace s))"
  from a have ne: "?r \<noteq> []" by (simp add: js_trim_def)
  have "last (js_trim s) = hd ?r" using ne by (simp add: js_trim_def last_rev)
  moreover have "\<not> is_whitespace (hd ?r)" using ne hd_dropWhile by blast
  ultimately show ?thesis by simp
qed

section \<open>The invariant of the page\<close>

lemma page_inv_mount: "page_inv (load_config env) (mount env)"
  by (auto simp: page_inv_def mount_def load_module_def configured_def)

lemma page_inv_dispatch: "page_inv cfg st \<Longrightarrow> page_inv cfg (dispatch st e)"
proof (cases e)
  case (Change i val)
  assume "page_inv cfg st"
  then show ?thesis using Change
    by (cases i) (auto simp: page_inv_def handleChange_def configured_def)
next
  case ClickShowPassword
  assume "page_inv cfg st"
  then show ?thesis using ClickShowPassword
    by (simp add: page_inv_def toggleShowPassword_def)
next
  case SubmitForm
  assume "page_inv cfg st"
  then show ?thesis using SubmitForm
    by (simp add: page_inv_def handleSubmit_def)
qed

lemma page_inv_foldl: "page_inv cfg st \<Longrightarrow> page_inv cfg (foldl dispatch st evs)"
  by (induction evs arbitrary: st) (simp_all add: page_inv_dispatch)

lemma page_inv_run: "page_inv (load_config env) (run env evs)"
  unfolding run_def by (rule page_inv_foldl [OF page_inv_mount])

section \<open>The allow-list read from the environment\<close>

text \<open>
  Claim C10. If \<^verbatim>\<open>REACT_APP_ALLOWED_USER_EMAILS\<close> is set to a non-empty string,
  \<^verbatim>\<open>ALLOWED_USER_EMAILS\<close> is the list of its comma-separated pieces, each trimmed of
  surrounding white space; empty pieces stay, so the list has one entry more than the
  string has commas. If the variable is not set, the list is the fixed default of two
  addresses. What the pieces of a split are is said by \<open>js_join_split\<close>,
  \<open>js_split_no_sep\<close> and \<open>length_js_split\<close> above, and what trimming leaves by
  \<open>js_trim_no_leading\<close> and \<open>js_trim_no_trailing\<close>.
\<close>

theorem allowed_user_emails_from_env:
  "(env ''REACT_APP_ALLOWED_USER_EMAILS'' = Some s \<and> s \<noteq> [] \<longrightarrow>
      ALLOWED_USER_EMAILS (load_config env) = map js_trim (js_split (CHR '','') s) \<and>
      length (ALLOWED_USER_EMAILS (load_config env)) = Suc (count_list s (CHR '','')))
   \<and> (env ''REACT_APP_ALLOWED_USER_EMAILS'' = None \<longrightarrow>
      ALLOWED_USER_EMAILS (load_config env) =
        [''omar.elhasan@prezlab.com'', ''sanad.zaqtan@prezlab.com''])"
  by (simp add: load_config_def length_js_split)

theorem allowed_user_emails_from_env_witness:
  "ALLOWED_USER_EMAILS
     (load_config [''REACT_APP_ALLOWED_USER_EMAILS'' \<mapsto> '' a@x.com , ,b@y.com,''])
     = [''a@x.com'', '''', ''b@y.com'', '''']
   \<and> length (ALLOWED_USER_EMAILS
       (load_config [''REACT_APP_ALLOWED_USER_EMAILS'' \<mapsto> '' a@x.com , ,b@y.com,''])) = 4
   \<and> ALLOWED_USER_EMAILS (load_config Map.empty) =
        [''omar.elhasan@prezlab.com'', ''sanad.zaqtan@prezlab.com'']"
  using allowed_user_emails_from_env
          [of "[''REACT_APP_ALLOWED_USER_EMAILS'' \<mapsto> '' a@x.com , ,b@y.com,'']"
              "'' a@x.com , ,b@y.com,''"]
        allowed_user_emails_from_env [of Map.empty]
  by (simp add: js_trim_def is_whitespace_def)

section \<open>The login page\<close>

lemma run_snoc: "run env (evs @ [e]) = dispatch (run env evs) e"
  by (simp add: run_def)

lemma module_dispatch: "module (dispatch st e) = module st"
  by (cases e) (simp_all add: handleChange_def toggleShowPassword_def handleSubmit_def)

lemma range_input_name: "range input_name = {''username'', ''password''}"
proof -
  have "UNIV = {UsernameInput, PasswordInput}"
    using input.exhaust by auto
  then have "range input_name = input_name ` {UsernameInput, PasswordInput}" by simp
  then show ?thesis by auto
qed

text \<open>
  Claim C9. In every state that the page reaches by user events, the form's \<^verbatim>\<open>url\<close> is
  \<^verbatim>\<open>ODOO_URL\<close> and its \<^verbatim>\<open>database\<close> is \<^verbatim>\<open>ODOO_DB\<close>, the constants of the module as
  loaded at the start. The rendered inputs are named \<^verbatim>\<open>username\<close> and \<^verbatim>\<open>password\<close>
  and no others, and \<^verbatim>\<open>handleChange\<close> changes the property with the input's name and
  leaves every other property as it was.
\<close>

theorem form_endpoint_and_database_fixed:
  "form (run env evs) ''url'' = Some (ODOO_URL (module (run env evs))) \<and>
   form (run env evs) ''database'' = Some (ODOO_DB (module (run env evs))) \<and>
   module (run env evs) = load_config env \<and>
   range input_name = {''username'', ''password''} \<and>
   form (handleChange name val st) k = (if k = name then Some val else form st k)"
  using page_inv_run [of env evs]
  by (simp add: page_inv_def configured_def range_input_name handleChange_def)

text \<open>
  Claim C7. Submitting the form, in any state the page can reach, calls
  \<^verbatim>\<open>connectToOdoo\<close> once, with the form object of that state; and that object has
  exactly the four properties \<^verbatim>\<open>url\<close>, \<^verbatim>\<open>database\<close>, \<^verbatim>\<open>username\<close> and \<^verbatim>\<open>password\<close>.
\<close>

theorem submit_passes_form:
  "effects (run env (evs @ [SubmitForm])) =
     effects (run env evs) @ [PreventDefault, ConnectToOdoo (form (run env evs))] \<and>
   dom (form (run env evs)) = {''url'', ''database'', ''username'', ''password''}"
  using page_inv_run [of env evs]
  by (simp add: run_snoc handleSubmit_def page_inv_def configured_def)

text \<open>
  Claim C3. The allow-list is computed when the module is loaded, and no handler of the
  program changes it: every event leaves the module's constants as they are, so in
  every reachable state \<^verbatim>\<open>ALLOWED_USER_EMAILS\<close> is the list that was loaded from the
  environment at the start.
\<close>

theorem allow_list_never_changes:
  "module (dispatch st e) = module st \<and>
   ALLOWED_USER_EMAILS (module (mount env)) = ALLOWED_USER_EMAILS (load_config env) \<and>
   ALLOWED_USER_EMAILS (module (run env evs)) = ALLOWED_USER_EMAILS (load_config env)"
  using page_inv_run [of env evs] page_inv_mount [of env]
  by (simp add: module_dispatch page_inv_def)

section \<open>What a client can submit\<close>

lemma client_run_snoc: "client_run env (evs @ [e]) = client_dispatch (client_run env evs) e"
  by (simp add: client_run_def)

lemma dispatch_as_client: "dispatch st e = client_dispatch st (as_client_event e)"
  by (cases e) simp_all

lemma run_as_client: "run env evs = client_run env (map as_client_event evs)"
proof -
  have "foldl dispatch st evs = foldl client_dispatch st (map as_client_event evs)" for st
    by (induction evs arbitrary: st) (simp_all add: dispatch_as_client)
  then show ?thesis by (simp add: run_def client_run_def)
qed

lemma request_inv_mount: "request_inv (mount env)"
  by (simp add: request_inv_def mount_def load_module_def)

lemma request_inv_client_dispatch: "request_inv st \<Longrightarrow> request_inv (client_dispatch st e)"
  by (cases e)
     (auto simp: request_inv_def handleChange_def toggleShowPassword_def handleSubmit_def)

lemma request_inv_foldl: "request_inv st \<Longrightarrow> request_inv (foldl client_dispatch st evs)"
  by (induction evs arbitrary: st) (simp_all add: request_inv_client_dispatch)

lemma request_inv_client_run: "request_inv (client_run env evs)"
  unfolding client_run_def by (rule request_inv_foldl [OF request_inv_mount])

lemma client_submits_chosen:
  "effects (client_run env [ChangeEvent ''url'' u, ChangeEvent ''database'' d, SubmitEvent]) =
     [PreventDefault, ConnectToOdoo ((form (mount env))(''url'' \<mapsto> u, ''database'' \<mapsto> d))]"
  by (simp add: client_run_def handleChange_def handleSubmit_def mount_def load_module_def)

text \<open>
  Claim C2. Endpoint and database are supplied with each login request: every call of
  \<^verbatim>\<open>connectToOdoo\<close> is made with the form the client holds at that moment, and that
  form always has a \<^verbatim>\<open>url\<close> and a \<^verbatim>\<open>database\<close>. Their values are not fixed by the
  program: for every endpoint \<open>u\<close> and database \<open>d\<close> a client can submit them, by change
  events named \<^verbatim>\<open>url\<close> and \<^verbatim>\<open>database\<close> followed by a submit, whatever the configured
  defaults are. (The events of the rendered page are client events too, see
  \<open>run_as_client\<close>; the page by itself offers no input of these names.)
\<close>

theorem endpoint_and_database_per_request:
  "client_can_submit env u d \<and>
   effects (client_run env [ChangeEvent ''url'' u, ChangeEvent ''database'' d, SubmitEvent]) =
     [PreventDefault, ConnectToOdoo ((form (mount env))(''url'' \<mapsto> u, ''database'' \<mapsto> d))] \<and>
   effects (client_run env (evs @ [SubmitEvent])) =
     effects (client_run env evs) @ [PreventDefault, ConnectToOdoo (form (client_run env evs))] \<and>
   list_all carries_endpoint (effects (client_run env evs))"
proof -
  let ?evs = "[ChangeEvent ''url'' u, ChangeEvent ''database'' d, SubmitEvent]"
  let ?f = "(form (mount env))(''url'' \<mapsto> u, ''database'' \<mapsto> d)"
  have sent: "effects (client_run env ?evs) = [PreventDefault, ConnectToOdoo ?f]"
    by (rule client_submits_chosen)
  then have "ConnectToOdoo ?f \<in> set (effects (client_run env ?evs))" by simp
  moreover have "?f ''url'' = Some u" and "?f ''database'' = Some d" by simp_all
  ultimately have can: "client_can_submit env u d"
    unfolding client_can_submit_def by blast
  have each: "effects (client_run env (evs @ [SubmitEvent])) =
      effects (client_run env evs) @ [PreventDefault, ConnectToOdoo (form (client_run env evs))]"
    by (simp add: client_run_snoc handleSubmit_def)
  have carried: "list_all carries_endpoint (effects (client_run env evs))"
    using request_inv_client_run [of env evs] by (simp add: request_inv_def)
  from can sent each carried show ?thesis by blast
qed

theorem endpoint_and_database_per_request_witness:
  "client_can_submit Map.empty ''https://example.odoo.com/'' ''demo'' \<and>
   effects (client_run Map.empty
      [ChangeEvent ''url'' ''https://example.odoo.com/'', ChangeEvent ''database'' ''demo'',
       SubmitEvent]) =
     [PreventDefault,
      ConnectToOdoo [''url'' \<mapsto> ''https://example.odoo.com/'', ''database'' \<mapsto> ''demo'',
                     ''username'' \<mapsto> '''', ''password'' \<mapsto> '''']]"
proof -
  have "(form (mount Map.empty))(''url'' \<mapsto> ''https://example.odoo.com/'', ''database'' \<mapsto> ''demo'')
      = [''url'' \<mapsto> ''https://example.odoo.com/'', ''database'' \<mapsto> ''demo'',
         ''username'' \<mapsto> '''', ''password'' \<mapsto> '''']"
    by (auto simp: mount_def load_module_def)
  with endpoint_and_database_per_request [of Map.empty "''https://example.odoo.com/''" "''demo''" "[]"]
  show ?thesis by simp
qed

section \<open>What the configuration consists of\<close>


text \<open>
  Claim C8. The module supplies the four values of the email configuration: sender
  address, sender password, SMTP server and SMTP port, each read from its environment
  variable. Loading the module leaves no effect behind (the log is empty after the load
  and still empty when the page is mounted), so no mail is sent. When the variables of
  the server and the port are not set, the values are \<^verbatim>\<open>smtp.gmail.com\<close> and \<^verbatim>\<open>587\<close>.
\<close>

theorem email_configuration_supplied:
  "snd (load_module env) = [] \<and> effects (mount env) = [] \<and>
   DEFAULT_SENDER_EMAIL (fst (load_module env)) =
     or_default (env ''REACT_APP_DEFAULT_SENDER_EMAIL'') '''' \<and>
   DEFAULT_SENDER_PASSWORD (fst (load_module env)) =
     or_default (env ''REACT_APP_DEFAULT_SENDER_PASSWORD'') '''' \<and>
   DEFAULT_SMTP_SERVER (fst (load_module env)) =
     or_default (env ''REACT_APP_DEFAULT_SMTP_SERVER'') ''smtp.gmail.com'' \<and>
   DEFAULT_SMTP_PORT (fst (load_module env)) =
     or_default (env ''REACT_APP_DEFAULT_SMTP_PORT'') ''587'' \<and>
   (env ''REACT_APP_DEFAULT_SMTP_SERVER'' = None \<longrightarrow>
      DEFAULT_SMTP_SERVER (fst (load_module env)) = ''smtp.gmail.com'') \<and>
   (env ''REACT_APP_DEFAULT_SMTP_PORT'' = None \<longrightarrow>
      DEFAULT_SMTP_PORT (fst (load_module env)) = ''587'')"
  by (simp add: load_module_def load_config_def mount_def or_default_def)

theorem email_configuration_supplied_witness:
  "load_module [''REACT_APP_DEFAULT_SENDER_EMAIL'' \<mapsto> ''noreply@prezlab.com'']
     = (\<lparr> ODOO_URL = ''https://prezlab.odoo.com/'',
           ODOO_DB = ''odoo-ps-psae-prezlab-main-10779811'',
           DEFAULT_SENDER_EMAIL = ''noreply@prezlab.com'',
           DEFAULT_SENDER_PASSWORD = '''',
           DEFAULT_SMTP_SERVER = ''smtp.gmail.com'',
           DEFAULT_SMTP_PORT = ''587'',
           ALLOWED_USER_EMAILS =
             [''omar.elhasan@prezlab.com'', ''sanad.zaqtan@prezlab.com''] \<rparr>,
        [])"
  using email_configuration_supplied
          [of "[''REACT_APP_DEFAULT_SENDER_EMAIL'' \<mapsto> ''noreply@prezlab.com'']"]
  by (simp add: load_module_def load_config_def or_default_def)




section \<open>Validation and login\<close>

text \<open>
  Claim C1. A username that is not in the allow-list (the allow-list holds
  case-insensitive strings, so: that equals no entry up to the case of its letters) makes
  login return \<open>Forbidden\<close> and leave the gateway as it was: no remote call is added to
  the log and the session store holds the sessions it held before, whatever the remote
  system would have answered.
\<close>

theorem login_forbidden:
  assumes "to_lower (username c) \<notin> set (map to_lower allow)"
  shows "login malformed allow remote sid now g c = (Forbidden, g) \<and>
         remote_calls (snd (login malformed allow remote sid now g c)) = remote_calls g \<and>
         sessions (snd (login malformed allow remote sid now g c)) = sessions g"
  using assms by (simp add: login_def validate_def)

theorem login_forbidden_witness:
  "login nothing_malformed [''omar.elhasan@prezlab.com'', ''sanad.zaqtan@prezlab.com'']
     always_accepts 7 0 fresh_gateway
     \<lparr> endpoint = ''https://example.odoo.com/'', database = ''demo'',
       username = ''mallory@example.com'', secret = ''correct'' \<rparr>
   = (Forbidden, fresh_gateway)"
proof -
  have h: "to_lower (username \<lparr> endpoint = ''https://example.odoo.com/'', database = ''demo'',
       username = ''mallory@example.com'', secret = ''correct'' \<rparr>)
     \<notin> set (map to_lower [''omar.elhasan@prezlab.com'', ''sanad.zaqtan@prezlab.com''])"
    by (simp add: to_lower_def to_lower_char_def)
  from login_forbidden [OF h] show ?thesis by blast
qed

text \<open>
  Claim C5. Validation of the empty username is false for every allow-list and every
  test for malformed input, hence for every allow-list read from the environment; this
  includes allow-lists with empty entries, such as the one read from the variable value
  \<^verbatim>\<open>a@x.com,,b@y.com,\<close>, whose second and fourth entries are empty.
\<close>

theorem validate_empty_false:
  "\<not> validate malformed allow '''' \<and>
   \<not> validate malformed (ALLOWED_USER_EMAILS (load_config env)) '''' \<and>
   ALLOWED_USER_EMAILS (load_config [''REACT_APP_ALLOWED_USER_EMAILS'' \<mapsto> ''a@x.com,,b@y.com,''])
     = [''a@x.com'', '''', ''b@y.com'', ''''] \<and>
   \<not> validate malformed
       (ALLOWED_USER_EMAILS
          (load_config [''REACT_APP_ALLOWED_USER_EMAILS'' \<mapsto> ''a@x.com,,b@y.com,'']))
       ''''"
  by (simp add: validate_def load_config_def js_trim_def is_whitespace_def)

end
